theory Spec2Isabelle
  imports Main "HOL-Library.Word"
begin

section \<open>Values shared by the repository layer\<close>

text \<open>
  Go pointers that the code compares with \<open>nil\<close> are \<open>option\<close> values; a Go result pair
  \<open>(value, err)\<close> is a pair of options, since the types allow every combination.
  A run-time panic (nil dereference, slice bounds) is the left injection of a sum.
\<close>

type_synonym byte = "8 word"

text \<open>\<open>common.Address\<close> and \<open>common.Hash\<close>, read through their \<open>Bytes()\<close>.\<close>

type_synonym address = "byte list"
type_synonym hash = "byte list"

datatype panic = NilDereference | SliceBounds

text \<open>
  The logger is a sink of leveled messages: each call is recorded with its level, its format
  string and the values handed to the formatter.
\<close>

datatype severity = Debug | Notice | Error | Critical

datatype log_arg = ArgHash hash | ArgAddr address | ArgErr string | ArgNum nat

type_synonym log_entry = "severity \<times> string \<times> log_arg list"

subsection \<open>Hex renderings of go-ethereum's \<open>hexutil\<close>\<close>

definition hexdigit :: "nat \<Rightarrow> char" where
  "hexdigit n = ''0123456789abcdef'' ! n"

definition hex_byte :: "byte \<Rightarrow> string" where
  "hex_byte b = [hexdigit (unat b div 16), hexdigit (unat b mod 16)]"

text \<open>\<open>hexutil.Encode\<close>: the prefix \<open>0x\<close>, then two lower-case digits for each byte.\<close>

definition Encode :: "byte list \<Rightarrow> string" where
  "Encode b = ''0x'' @ concat (map hex_byte b)"

text \<open>\<open>hexutil.Bytes.String\<close> is \<open>Encode\<close>; a nil slice is rendered as the empty one.\<close>

definition bytes_of :: "byte list option \<Rightarrow> byte list" where
  "bytes_of d = (case d of None \<Rightarrow> [] | Some b \<Rightarrow> b)"

definition Bytes_String :: "byte list option \<Rightarrow> string" where
  "Bytes_String d = Encode (bytes_of d)"

fun hex_nat :: "nat \<Rightarrow> string" where
  "hex_nat n = (if n < 16 then [hexdigit n] else hex_nat (n div 16) @ [hexdigit (n mod 16)])"

declare hex_nat.simps [simp del]

text \<open>\<open>hexutil.Big.String\<close>, that is \<open>hexutil.EncodeBig\<close>.\<close>

definition Big_String :: "int \<Rightarrow> string" where
  "Big_String i =
     (if i = 0 then ''0x0''
      else if 0 < i then ''0x'' @ hex_nat (nat i)
      else ''-0x'' @ hex_nat (nat (- i)))"

text \<open>The Go slice expression \<open>s[:n]\<close> on a string: it panics when \<open>n\<close> exceeds the length.\<close>

definition slice_to :: "nat \<Rightarrow> string \<Rightarrow> panic + string" where
  "slice_to n s = (if n \<le> length s then Inr (take n s) else Inl SliceBounds)"

subsection \<open>\<open>strings.EqualFold\<close>\<close>

text \<open>
  Strings are byte lists. The folding below is the one of the ASCII letters; on strings
  that hold other letters Go folds more (the model then compares the bytes as they are).
\<close>

definition ToLower :: "char \<Rightarrow> char" where
  "ToLower c =
     (case map_of (zip ''ABCDEFGHIJKLMNOPQRSTUVWXYZ'' ''abcdefghijklmnopqrstuvwxyz'') c of
        None \<Rightarrow> c
      | Some l \<Rightarrow> l)"

definition EqualFold :: "string \<Rightarrow> string \<Rightarrow> bool" where
  "EqualFold s t = (map ToLower s = map ToLower t)"

section \<open>Data model of the call analyzer\<close>

text \<open>
  The records carry the fields the analysed functions read or write.
  \<open>InputData\<close> is a \<open>hexutil.Bytes\<close> slice: \<open>None\<close> is the nil slice.
\<close>

record Transaction =
  Hash :: hash
  To :: "address option"
  InputData :: "byte list option"
  TargetContractType :: "string option"
  TargetFunctionCall :: "string option"
  IsErc20Call :: bool

record Contract =
  Abi :: string
  Type :: string

record Account =
  Type :: string

text \<open>
  A parsed \<open>abi.ABI\<close>, as far as \<open>MethodById\<close> reads it: the methods with their names and
  4-byte selectors, in the order the lookup visits them.
\<close>

record Method =
  Name :: string
  ID :: "byte list"

type_synonym ABI = "Method list"

definition MethodById :: "ABI \<Rightarrow> byte list \<Rightarrow> string + Method" where
  "MethodById inAbi sigdata =
     (if length sigdata < 4 then Inl ''data too short for abi method lookup''
      else (case find (\<lambda>m. ID m = take 4 sigdata) inAbi of
              None \<Rightarrow> Inl ''no method with id''
            | Some m \<Rightarrow> Inr m))"

text \<open>
  What the queue is given and cannot be read from the analysed files: the repository
  (lookups return the Go pair), the configured SFC address, the ABI parser of go-ethereum,
  the bundled version 1 interface of the SFC, and the account type constants of package
  \<open>types\<close>.
\<close>

record env =
  repo_Contract :: "address option \<Rightarrow> Contract option \<times> string option"
  repo_Account :: "address option \<Rightarrow> Account option \<times> string option"
  repo_TransactionUpdate :: "Transaction \<Rightarrow> string option"
  SfcContract :: address
  abi_JSON :: "string \<Rightarrow> string + ABI"
  SfcV1ContractABI :: string
  AccountTypeContract :: string
  AccountTypeERC20Token :: string

text \<open>
  What the queue leaves behind: the log, the ABI descriptions handed to the matcher (in
  call order), and the transactions handed to \<open>TransactionUpdate\<close>.
\<close>

record cq_state =
  logged :: "log_entry list"
  abiTried :: "string list"
  updateCalls :: "Transaction list"

definition put :: "severity \<Rightarrow> string \<Rightarrow> log_arg list \<Rightarrow> cq_state \<Rightarrow> cq_state" where
  "put lvl fmt args s = s\<lparr>logged := logged s @ [(lvl, fmt, args)]\<rparr>"

text \<open>
  Modelled from the spec: \<open>IsSfcContract\<close> of the repository is not among the analysed files;
  the spec describes the contract-identity predicates as an exact byte-equality check against
  a configured well-known address, which is also what \<open>IsStiContract\<close> does in the source.
  The address arrives as a pointer and is dereferenced.
\<close>

definition IsSfcContract :: "env \<Rightarrow> address option \<Rightarrow> panic + bool" where
  "IsSfcContract e addr =
     (case addr of None \<Rightarrow> Inl NilDereference | Some a \<Rightarrow> Inr (a = SfcContract e))"

section \<open>The call analyzer\<close>

definition IsLikelyAContractCall :: "Transaction option \<Rightarrow> bool" where
  "IsLikelyAContractCall trx =
     (case trx of
        None \<Rightarrow> False
      | Some t \<Rightarrow> To t \<noteq> None \<and> InputData t \<noteq> None \<and> 4 \<le> length (bytes_of (InputData t)))"

definition matchCallMethod :: "cq_state \<Rightarrow> Transaction \<Rightarrow> ABI \<Rightarrow> cq_state \<times> Transaction" where
  "matchCallMethod s trx inAbi =
     (case MethodById inAbi (bytes_of (InputData trx)) of
        Inl err \<Rightarrow>
          (put Error ''method signature not found at %s; %s'' [ArgHash (Hash trx), ArgErr err] s,
           trx)
      | Inr m \<Rightarrow> (s, trx\<lparr>TargetFunctionCall := Some (Method.Name m)\<rparr>))"

definition tryMatchWithAbi ::
  "env \<Rightarrow> cq_state \<Rightarrow> Transaction \<Rightarrow> string \<Rightarrow> cq_state \<times> Transaction" where
  "tryMatchWithAbi e s trx inAbi =
     (let s0 = s\<lparr>abiTried := abiTried s @ [inAbi]\<rparr> in
      case abi_JSON e inAbi of
        Inl err \<Rightarrow> (put Debug ''failed to parse ABI; %s'' [ArgErr err] s0, trx)
      | Inr parsed \<Rightarrow> matchCallMethod s0 trx parsed)"

text \<open>
  The first block of \<open>updateTargetFunctionSignature\<close>: the stored ABI is matched and the
  ERC-20 flag assigned, both only when the contract has an ABI.
\<close>

definition matchStoredAbi ::
  "env \<Rightarrow> cq_state \<Rightarrow> Transaction \<Rightarrow> Contract \<Rightarrow> cq_state \<times> Transaction" where
  "matchStoredAbi e s trx sc =
     (if Abi sc \<noteq> [] then
        (case tryMatchWithAbi e s trx (Abi sc) of
           (s1, t1) \<Rightarrow>
             (s1, t1\<lparr>IsErc20Call := EqualFold (Contract.Type sc) (AccountTypeERC20Token e)\<rparr>))
      else (s, trx))"

text \<open>The second block: the version 1 interface, for the SFC when nothing is matched yet.\<close>

definition matchLegacyAbi ::
  "env \<Rightarrow> cq_state \<Rightarrow> Transaction \<Rightarrow> panic + (cq_state \<times> Transaction)" where
  "matchLegacyAbi e s trx =
     (if TargetFunctionCall trx = None then
        (case IsSfcContract e (To trx) of
           Inl p \<Rightarrow> Inl p
         | Inr isSfc \<Rightarrow>
             if isSfc then Inr (tryMatchWithAbi e s trx (SfcV1ContractABI e)) else Inr (s, trx))
      else Inr (s, trx))"

text \<open>The third block: the raw signature \<open>trx.InputData.String()[:8]\<close>.\<close>

definition useRawSignature ::
  "cq_state \<Rightarrow> Transaction \<Rightarrow> panic + (cq_state \<times> Transaction)" where
  "useRawSignature s trx =
     (if TargetFunctionCall trx = None then
        (case slice_to 8 (Bytes_String (InputData trx)) of
           Inl p \<Rightarrow> Inl p
         | Inr fc \<Rightarrow>
             Inr (put Debug ''transaction %s call undefined, generic signature used''
                    [ArgHash (Hash trx)] s,
                  trx\<lparr>TargetFunctionCall := Some fc\<rparr>))
      else Inr (s, trx))"

definition updateTargetFunctionSignature ::
  "env \<Rightarrow> cq_state \<Rightarrow> Transaction \<Rightarrow> Contract \<Rightarrow> panic + (cq_state \<times> Transaction)" where
  "updateTargetFunctionSignature e s trx sc =
     (case matchStoredAbi e s trx sc of
        (s1, t1) \<Rightarrow>
          (case matchLegacyAbi e s1 t1 of
             Inl p \<Rightarrow> Inl p
           | Inr (s2, t2) \<Rightarrow> useRawSignature s2 t2))"

definition updateTargetContractType ::
  "env \<Rightarrow> cq_state \<Rightarrow> Transaction \<Rightarrow> panic + (cq_state \<times> Transaction)" where
  "updateTargetContractType e s trx =
     (case repo_Account e (To trx) of
        (acc, Some err) \<Rightarrow>
          (case To trx of
             None \<Rightarrow> Inl NilDereference
           | Some a \<Rightarrow>
               Inr (put Critical ''contract %s account not found at %s; %s''
                      [ArgAddr a, ArgHash (Hash trx), ArgErr err] s,
                    trx\<lparr>TargetContractType := Some (AccountTypeContract e)\<rparr>))
      | (None, None) \<Rightarrow> Inl NilDereference
      | (Some a, None) \<Rightarrow> Inr (s, trx\<lparr>TargetContractType := Some (Account.Type a)\<rparr>))"

text \<open>
  The last step of \<open>analyzeCall\<close>: the transaction goes to \<open>TransactionUpdate\<close>; a failure
  is logged and nothing else happens.
\<close>

definition persist :: "env \<Rightarrow> cq_state \<Rightarrow> Transaction \<Rightarrow> cq_state" where
  "persist e s trx =
     (let s1 = s\<lparr>updateCalls := updateCalls s @ [trx]\<rparr> in
      case repo_TransactionUpdate e trx of
        None \<Rightarrow> s1
      | Some err \<Rightarrow> put Error ''transaction %s not updated; %s'' [ArgHash (Hash trx), ArgErr err] s1)"

definition analyzeCall ::
  "env \<Rightarrow> cq_state \<Rightarrow> Transaction option \<Rightarrow> panic + (cq_state \<times> Transaction option)" where
  "analyzeCall e s trx =
     (if \<not> IsLikelyAContractCall trx then
        Inr (put Error ''analyzer received a non-call transaction'' [] s, trx)
      else
        (case trx of
           None \<Rightarrow> Inl NilDereference
         | Some t \<Rightarrow>
             (case repo_Contract e (To t) of
                (sc, err) \<Rightarrow>
                  (let s1 = (case err of
                               None \<Rightarrow> s
                             | Some m \<Rightarrow>
                                 put Error ''can not analyze call at %s; %s''
                                   [ArgHash (Hash t), ArgErr m] s)
                   in case sc of
                        None \<Rightarrow>
                          Inr (put Debug
                                 ''transaction %s recipient not known, probably not a contract call''
                                 [ArgHash (Hash t)] s1,
                               trx)
                      | Some c \<Rightarrow>
                          (case updateTargetContractType e s1 t of
                             Inl p \<Rightarrow> Inl p
                           | Inr (s2, t2) \<Rightarrow>
                               (case updateTargetFunctionSignature e s2 t2 c of
                                  Inl p \<Rightarrow> Inl p
                                | Inr (s3, t3) \<Rightarrow> Inr (persist e s3 t3, Some t3)))))))"

text \<open>
  The name a description yields for call data, if it parses and holds the selector: what
  \<open>tryMatchWithAbi\<close> would store.
\<close>

definition abiMatch :: "env \<Rightarrow> string \<Rightarrow> byte list option \<Rightarrow> string option" where
  "abiMatch e inAbi d =
     (case abi_JSON e inAbi of
        Inl err \<Rightarrow> None
      | Inr parsed \<Rightarrow>
          (case MethodById parsed (bytes_of d) of
             Inl err \<Rightarrow> None
           | Inr m \<Rightarrow> Some (Method.Name m)))"

section \<open>Staker information: cache and source\<close>

text \<open>\<open>types.StakerInfo\<close>, as far as the analysed code reads it: the optional name.\<close>

record StakerInfo =
  Name :: "string option"

text \<open>
  What the proxy is given: the RPC source of staker information, whether the cache accepts
  a push (its error, if any), the configured STI address, the store's withdrawals query
  (its result is whatever the store returns, of a type left open) and the rendering of an
  address.
\<close>

record 'r penv =
  rpc_StakerInfo :: "int \<Rightarrow> StakerInfo option \<times> string option"
  cache_PushError :: "int \<Rightarrow> StakerInfo \<Rightarrow> string option"
  StiContract :: address
  db_Withdrawals :: "string option \<Rightarrow> 32 word \<Rightarrow> (string \<times> string) list \<Rightarrow> 'r"
  Address_String :: "address \<Rightarrow> string"

text \<open>
  The proxy's state: the cache content, the ids the source was asked for (in call order),
  the store queries issued (cursor, count, filter document), and the log.
\<close>

record pstate =
  cache :: "int \<rightharpoonup> StakerInfo"
  rpcCalls :: "int list"
  dbCalls :: "(string option \<times> 32 word \<times> (string \<times> string) list) list"
  plogged :: "log_entry list"

text \<open>
  Modelled from the spec: the cache package is not among the analysed files; the spec
  describes it as a key-to-value store keyed by entity identity. A pull returns the stored
  record or nil; a push stores the record unless the cache reports an error. Eviction is
  a matter of time and does not happen between the calls modelled here.
\<close>

definition cache_PullStakerInfo :: "pstate \<Rightarrow> int \<Rightarrow> StakerInfo option" where
  "cache_PullStakerInfo s sid = cache s sid"

definition cache_PushStakerInfo ::
  "'r penv \<Rightarrow> pstate \<Rightarrow> int \<Rightarrow> StakerInfo \<Rightarrow> pstate \<times> string option" where
  "cache_PushStakerInfo e s sid sti =
     (case cache_PushError e sid sti of
        None \<Rightarrow> (s\<lparr>cache := (cache s)(sid \<mapsto> sti)\<rparr>, None)
      | Some err \<Rightarrow> (s, Some err))"

definition StoreStakerInfo ::
  "'r penv \<Rightarrow> pstate \<Rightarrow> int \<Rightarrow> StakerInfo \<Rightarrow> pstate \<times> string option" where
  "StoreStakerInfo e s sid sti =
     (case cache_PushStakerInfo e s sid sti of
        (s1, Some err) \<Rightarrow>
          (s1\<lparr>plogged := plogged s1 @ [(Error, ''staker info can net be kept'', [])]\<rparr>, Some err)
      | (s1, None) \<Rightarrow> (s1, None))"

definition PullStakerInfo ::
  "'r penv \<Rightarrow> pstate \<Rightarrow> int \<Rightarrow> pstate \<times> StakerInfo option \<times> string option" where
  "PullStakerInfo e s sid =
     (let s1 = s\<lparr>rpcCalls := rpcCalls s @ [sid]\<rparr> in
      case rpc_StakerInfo e sid of
        (info, Some err) \<Rightarrow> (s1, None, Some err)
      | (None, None) \<Rightarrow>
          (let info = \<lparr>Name = None\<rparr> in (fst (StoreStakerInfo e s1 sid info), Some info, None))
      | (Some info, None) \<Rightarrow> (s1, Some info, None))"

text \<open>
  In \<open>RetrieveStakerInfo\<close> the short variable declaration inside the inner \<open>if\<close> declares
  a new \<open>info\<close>; the final \<open>return info\<close> reads the outer one, the result of the cache pull.
\<close>

definition RetrieveStakerInfo ::
  "'r penv \<Rightarrow> pstate \<Rightarrow> int \<Rightarrow> panic + (pstate \<times> StakerInfo option)" where
  "RetrieveStakerInfo e s sid =
     (let info = cache_PullStakerInfo s sid in
      if info = None then
        (case PullStakerInfo e s sid of
           (s1, info1, Some err) \<Rightarrow> Inr (s1, None)
         | (s1, None, None) \<Rightarrow> Inl NilDereference
         | (s1, Some i, None) \<Rightarrow>
             if StakerInfo.Name i = None then Inr (s1, None) else Inr (s1, info))
      else Inr (s, info))"

definition IsStiContract :: "'r penv \<Rightarrow> address option \<Rightarrow> panic + bool" where
  "IsStiContract e addr =
     (case addr of None \<Rightarrow> Inl NilDereference | Some a \<Rightarrow> Inr (a = StiContract e))"

section \<open>Withdraw requests\<close>

definition db_query ::
  "'r penv \<Rightarrow> pstate \<Rightarrow> string option \<Rightarrow> 32 word \<Rightarrow> (string \<times> string) list \<Rightarrow> pstate \<times> 'r" where
  "db_query e s cursor count flt =
     (s\<lparr>dbCalls := dbCalls s @ [(cursor, count, flt)]\<rparr>, db_Withdrawals e cursor count flt)"

definition WithdrawRequests ::
  "'r penv \<Rightarrow> pstate \<Rightarrow> address option \<Rightarrow> int option \<Rightarrow> string option \<Rightarrow> 32 word \<Rightarrow>
     panic + (pstate \<times> 'r)" where
  "WithdrawRequests e s addr stakerID cursor count =
     (case stakerID of
        None \<Rightarrow>
          (case addr of
             None \<Rightarrow> Inl NilDereference
           | Some a \<Rightarrow>
               Inr (db_query e
                      (s\<lparr>plogged := plogged s @
                           [(Debug, ''loading withdraw requests of %s to any validator'',
                             [ArgAddr a])]\<rparr>)
                      cursor count [(''addr'', Address_String e a)]))
      | Some sid \<Rightarrow>
          (case addr of
             None \<Rightarrow> Inl NilDereference
           | Some a \<Rightarrow>
               Inr (db_query e
                      (s\<lparr>plogged := plogged s @
                           [(Debug, ''loading withdraw requests of %s to #%d'',
                             [ArgAddr a, ArgNum (nat \<bar>sid\<bar> mod 2 ^ 64)])]\<rparr>)
                      cursor count
                      [(''addr'', Address_String e a), (''to'', Big_String sid)])))"

section \<open>Stub collaborators\<close>

text \<open>
  Concrete collaborators on which the theorems below are exercised: three tracked contracts
  (a token, the SFC, a contract without ABI), a parser that knows three descriptions, and
  a store that accepts every update.
\<close>

definition sfcAddress :: address where
  "sfcAddress = [0xFC, 0x00, 0xFA, 0xCE] @ replicate 16 0"

definition tokenAddress :: address where
  "tokenAddress = [0x0A, 0xBC] @ replicate 18 0"

definition plainAddress :: address where
  "plainAddress = [0x0D, 0xEF] @ replicate 18 0"

definition tokenAbi :: string where
  "tokenAbi = ''[transfer(address,uint256)]''"

definition sfcAbi :: string where
  "sfcAbi = ''[delegate(uint256)]''"

definition sfcV1Abi :: string where
  "sfcV1Abi = ''[createDelegation(uint256)]''"

definition stubParser :: "string \<Rightarrow> string + ABI" where
  "stubParser s =
     (if s = tokenAbi then Inr [\<lparr>Method.Name = ''transfer'', ID = [0xa9, 0x05, 0x9c, 0xbb]\<rparr>]
      else if s = sfcAbi then Inr [\<lparr>Method.Name = ''delegate'', ID = [0x9f, 0xa6, 0xdd, 0x35]\<rparr>]
      else if s = sfcV1Abi then Inr [\<lparr>Method.Name = ''createDelegation'', ID = [0xc3, 0x12, 0xeb, 0x07]\<rparr>]
      else Inl ''invalid character'')"

definition stubContract :: "address option \<Rightarrow> Contract option \<times> string option" where
  "stubContract a =
     (if a = Some tokenAddress then (Some \<lparr>Abi = tokenAbi, Contract.Type = ''ERC20''\<rparr>, None)
      else if a = Some sfcAddress then (Some \<lparr>Abi = sfcAbi, Contract.Type = ''SFC''\<rparr>, None)
      else if a = Some plainAddress then (Some \<lparr>Abi = [], Contract.Type = ''contract''\<rparr>, None)
      else (None, None))"

definition stubAccount :: "address option \<Rightarrow> Account option \<times> string option" where
  "stubAccount a =
     (if a = Some tokenAddress then (Some \<lparr>Account.Type = ''ERC20''\<rparr>, None)
      else if a = Some sfcAddress then (Some \<lparr>Account.Type = ''SFC''\<rparr>, None)
      else (None, Some ''account not found''))"

definition stubEnv :: env where
  "stubEnv =
     \<lparr>repo_Contract = stubContract,
      repo_Account = stubAccount,
      repo_TransactionUpdate = (\<lambda>t. None),
      SfcContract = sfcAddress,
      abi_JSON = stubParser,
      SfcV1ContractABI = sfcV1Abi,
      AccountTypeContract = ''contract'',
      AccountTypeERC20Token = ''ERC20''\<rparr>"

text \<open>The same collaborators, with the SFC's contract record typed as a token.\<close>

definition stubEnvTokenSfc :: env where
  "stubEnvTokenSfc =
     stubEnv\<lparr>repo_Contract := (\<lambda>a. (Some \<lparr>Abi = sfcAbi, Contract.Type = ''erc20''\<rparr>, None))\<rparr>"

definition idle :: cq_state where
  "idle = \<lparr>logged = [], abiTried = [], updateCalls = []\<rparr>"

text \<open>A transaction as the ingestion hands it over: nothing classified yet.\<close>

definition call :: "address option \<Rightarrow> byte list option \<Rightarrow> Transaction" where
  "call a d =
     \<lparr>Hash = [0x01], To = a, InputData = d, TargetContractType = None,
      TargetFunctionCall = None, IsErc20Call = False\<rparr>"

definition deadbeef :: "byte list" where
  "deadbeef = [0xde, 0xad, 0xbe, 0xef]"

definition legacySelector :: "byte list" where
  "legacySelector = [0xc3, 0x12, 0xeb, 0x07, 0x00, 0x01]"

text \<open>
  Stubs for the proxy: a source that knows staker 1 by name and no other staker, a cache
  that accepts every push, and a store that answers with the filter it was given.
\<close>

definition stubSource :: "int \<Rightarrow> StakerInfo option \<times> string option" where
  "stubSource i = (if i = 1 then (Some \<lparr>Name = Some ''validator one''\<rparr>, None) else (None, None))"

definition stubProxy :: "(string \<times> string) list penv" where
  "stubProxy =
     \<lparr>rpc_StakerInfo = stubSource,
      cache_PushError = (\<lambda>i sti. None),
      StiContract = sfcAddress,
      db_Withdrawals = (\<lambda>cursor count flt. flt),
      Address_String = Encode\<rparr>"

definition cold :: pstate where
  "cold = \<lparr>cache = Map.empty, rpcCalls = [], dbCalls = [], plogged = []\<rparr>"

text \<open>Reading a finished call: the transaction and the queue state it leaves, if it returns.\<close>

definition trxAfter :: "panic + (cq_state \<times> Transaction option) \<Rightarrow> Transaction option" where
  "trxAfter r = (case r of Inl p \<Rightarrow> None | Inr (s, t) \<Rightarrow> t)"

definition stateAfter :: "panic + (cq_state \<times> Transaction option) \<Rightarrow> cq_state option" where
  "stateAfter r = (case r of Inl p \<Rightarrow> None | Inr (s, t) \<Rightarrow> Some s)"

text \<open>The same collaborators again, with an account lookup that returns neither account nor error.\<close>

definition stubEnvNoAccount :: env where
  "stubEnvNoAccount = stubEnv\<lparr>repo_Account := (\<lambda>a. (None, None))\<rparr>"

text \<open>
  A transaction that went through the analysis before and kept the raw signature it was
  given then.
\<close>

definition labelled :: "Transaction \<Rightarrow> Transaction" where
  "labelled t = t\<lparr>TargetFunctionCall := Some (take 8 (Bytes_String (InputData t)))\<rparr>"

section \<open>The matching steps, one by one\<close>

lemma length_Encode: "length (Encode b) = 2 + 2 * length b"
  by (induction b) (simp_all add: Encode_def hex_byte_def)

lemma tryMatchWithAbi_trx:
  "snd (tryMatchWithAbi e s t a) =
     (case abiMatch e a (InputData t) of None \<Rightarrow> t | Some n \<Rightarrow> t\<lparr>TargetFunctionCall := Some n\<rparr>)"
  by (simp add: tryMatchWithAbi_def matchCallMethod_def abiMatch_def Let_def split: sum.splits)

lemma tryMatchWithAbi_abiTried:
  "abiTried (fst (tryMatchWithAbi e s t a)) = abiTried s @ [a]"
  by (simp add: tryMatchWithAbi_def matchCallMethod_def put_def Let_def split: sum.splits)

lemma tryMatchWithAbi_updateCalls:
  "updateCalls (fst (tryMatchWithAbi e s t a)) = updateCalls s"
  by (simp add: tryMatchWithAbi_def matchCallMethod_def put_def Let_def split: sum.splits)

lemma tryMatchWithAbi_logged:
  "set (logged s) \<subseteq> set (logged (fst (tryMatchWithAbi e s t a)))"
  by (auto simp: tryMatchWithAbi_def matchCallMethod_def put_def Let_def split: sum.splits)

lemma matchStoredAbi_trx:
  "snd (matchStoredAbi e s t sc) =
     (if Abi sc \<noteq> [] then
        (case abiMatch e (Abi sc) (InputData t) of
           None \<Rightarrow> t
         | Some n \<Rightarrow> t\<lparr>TargetFunctionCall := Some n\<rparr>)
        \<lparr>IsErc20Call := EqualFold (Contract.Type sc) (AccountTypeERC20Token e)\<rparr>
      else t)"
  using tryMatchWithAbi_trx [of e s t "Abi sc"]
  by (auto simp: matchStoredAbi_def split: prod.splits)

lemma matchStoredAbi_abiTried:
  "abiTried (fst (matchStoredAbi e s t sc)) = abiTried s @ (if Abi sc \<noteq> [] then [Abi sc] else [])"
  using tryMatchWithAbi_abiTried [of e s t "Abi sc"]
  by (auto simp: matchStoredAbi_def split: prod.splits)

lemma matchStoredAbi_updateCalls:
  "updateCalls (fst (matchStoredAbi e s t sc)) = updateCalls s"
  using tryMatchWithAbi_updateCalls [of e s t "Abi sc"]
  by (auto simp: matchStoredAbi_def split: prod.splits)

lemma matchLegacyAbi_panic:
  "matchLegacyAbi e s t = Inl p \<longleftrightarrow> p = NilDereference \<and> TargetFunctionCall t = None \<and> To t = None"
  by (auto simp: matchLegacyAbi_def IsSfcContract_def split: option.splits if_splits)

lemma matchLegacyAbi_trx:
  assumes "matchLegacyAbi e s t = Inr (s', t')"
  shows "t' = (if TargetFunctionCall t = None \<and> To t = Some (SfcContract e) then
                 (case abiMatch e (SfcV1ContractABI e) (InputData t) of
                    None \<Rightarrow> t
                  | Some n \<Rightarrow> t\<lparr>TargetFunctionCall := Some n\<rparr>)
               else t)"
  using assms tryMatchWithAbi_trx [of e s t "SfcV1ContractABI e"]
  by (auto simp: matchLegacyAbi_def IsSfcContract_def split: option.splits if_splits)

lemma matchLegacyAbi_abiTried:
  assumes "matchLegacyAbi e s t = Inr (s', t')"
  shows "abiTried s' = abiTried s @
           (if TargetFunctionCall t = None \<and> To t = Some (SfcContract e)
            then [SfcV1ContractABI e] else [])"
  using assms tryMatchWithAbi_abiTried [of e s t "SfcV1ContractABI e"]
  by (auto simp: matchLegacyAbi_def IsSfcContract_def split: option.splits if_splits)

lemma matchLegacyAbi_updateCalls:
  assumes "matchLegacyAbi e s t = Inr (s', t')"
  shows "updateCalls s' = updateCalls s"
  using assms tryMatchWithAbi_updateCalls [of e s t "SfcV1ContractABI e"]
  by (auto simp: matchLegacyAbi_def IsSfcContract_def split: option.splits if_splits)

lemma useRawSignature_panic:
  "useRawSignature s t = Inl p \<longleftrightarrow>
     p = SliceBounds \<and> TargetFunctionCall t = None \<and> length (Bytes_String (InputData t)) < 8"
  by (auto simp: useRawSignature_def slice_to_def split: if_splits)

lemma useRawSignature_trx:
  assumes "useRawSignature s t = Inr (s', t')"
  shows "t' = (if TargetFunctionCall t = None
               then t\<lparr>TargetFunctionCall := Some (take 8 (Bytes_String (InputData t)))\<rparr>
               else t)"
    and "abiTried s' = abiTried s" and "updateCalls s' = updateCalls s"
  using assms
  by (auto simp: useRawSignature_def slice_to_def put_def split: if_splits)

lemma useRawSignature_set:
  assumes "useRawSignature s t = Inr (s', t')"
  shows "TargetFunctionCall t' \<noteq> None"
  using useRawSignature_trx(1) [OF assms] by (simp split: if_splits)

section \<open>The signature update and the analysis as a whole\<close>

lemma updateTargetFunctionSignature_steps:
  assumes "updateTargetFunctionSignature e s t sc = Inr (s3, t3)"
  obtains s1 t1 s2 t2 where "matchStoredAbi e s t sc = (s1, t1)"
    and "matchLegacyAbi e s1 t1 = Inr (s2, t2)"
    and "useRawSignature s2 t2 = Inr (s3, t3)"
  using assms
  by (auto simp: updateTargetFunctionSignature_def split: prod.splits sum.splits)

lemma updateTargetFunctionSignature_ok:
  assumes "To t \<noteq> None" and "8 \<le> length (Bytes_String (InputData t))"
  shows "\<exists>s' t'. updateTargetFunctionSignature e s t sc = Inr (s', t')"
proof -
  obtain s1 t1 where m1: "matchStoredAbi e s t sc = (s1, t1)"
    by (cases "matchStoredAbi e s t sc")
  have t1: "To t1 = To t" "InputData t1 = InputData t"
    using matchStoredAbi_trx [of e s t sc] m1 by (auto split: option.splits)
  have "\<And>p. matchLegacyAbi e s1 t1 \<noteq> Inl p"
    using assms(1) t1 by (simp add: matchLegacyAbi_panic)
  then obtain s2 t2 where m2: "matchLegacyAbi e s1 t1 = Inr (s2, t2)"
    by (cases "matchLegacyAbi e s1 t1") auto
  have t2: "InputData t2 = InputData t"
    using matchLegacyAbi_trx [OF m2] t1 by (auto split: option.splits if_splits)
  have "\<And>p. useRawSignature s2 t2 \<noteq> Inl p"
    using assms(2) t2 by (simp add: useRawSignature_panic)
  then obtain s3 t3 where m3: "useRawSignature s2 t2 = Inr (s3, t3)"
    by (cases "useRawSignature s2 t2") auto
  show ?thesis
    by (simp add: updateTargetFunctionSignature_def m1 m2 m3)
qed

lemma updateTargetFunctionSignature_frame:
  assumes "updateTargetFunctionSignature e s t sc = Inr (s', t')"
  shows "To t' = To t" and "InputData t' = InputData t"
    and "TargetContractType t' = TargetContractType t" and "Hash t' = Hash t"
    and "updateCalls s' = updateCalls s"
proof -
  obtain s1 t1 s2 t2 where m1: "matchStoredAbi e s t sc = (s1, t1)"
    and m2: "matchLegacyAbi e s1 t1 = Inr (s2, t2)"
    and m3: "useRawSignature s2 t2 = Inr (s', t')"
    using assms by (rule updateTargetFunctionSignature_steps)
  have t1: "t1 = snd (matchStoredAbi e s t sc)" and s1: "s1 = fst (matchStoredAbi e s t sc)"
    using m1 by simp_all
  have f1: "To t1 = To t \<and> InputData t1 = InputData t
              \<and> TargetContractType t1 = TargetContractType t \<and> Hash t1 = Hash t"
    unfolding t1 matchStoredAbi_trx by (simp split: option.splits)
  have f2: "To t2 = To t1 \<and> InputData t2 = InputData t1
              \<and> TargetContractType t2 = TargetContractType t1 \<and> Hash t2 = Hash t1"
    unfolding matchLegacyAbi_trx [OF m2] by (simp split: option.splits)
  have f3: "To t' = To t2 \<and> InputData t' = InputData t2
              \<and> TargetContractType t' = TargetContractType t2 \<and> Hash t' = Hash t2"
    unfolding useRawSignature_trx(1) [OF m3] by simp
  show "To t' = To t" and "InputData t' = InputData t"
    and "TargetContractType t' = TargetContractType t" and "Hash t' = Hash t"
    using f1 f2 f3 by simp_all
  show "updateCalls s' = updateCalls s"
    using useRawSignature_trx(3) [OF m3] matchLegacyAbi_updateCalls [OF m2]
      matchStoredAbi_updateCalls [of e s t sc] s1 by simp
qed

lemma updateTargetFunctionSignature_logged:
  assumes "updateTargetFunctionSignature e s t sc = Inr (s', t')"
  shows "set (logged s) \<subseteq> set (logged s')"
proof -
  obtain s1 t1 s2 t2 where m1: "matchStoredAbi e s t sc = (s1, t1)"
    and m2: "matchLegacyAbi e s1 t1 = Inr (s2, t2)"
    and m3: "useRawSignature s2 t2 = Inr (s', t')"
    using assms by (rule updateTargetFunctionSignature_steps)
  have "set (logged s) \<subseteq> set (logged s1)"
    using m1 tryMatchWithAbi_logged [of s e t "Abi sc"]
    by (auto simp: matchStoredAbi_def split: if_splits prod.splits)
  moreover have "set (logged s1) \<subseteq> set (logged s2)"
    using m2 tryMatchWithAbi_logged [of s1 e t1 "SfcV1ContractABI e"]
    by (auto simp: matchLegacyAbi_def split: if_splits sum.splits)
  moreover have "set (logged s2) \<subseteq> set (logged s')"
    using m3 by (auto simp: useRawSignature_def put_def split: if_splits sum.splits)
  ultimately show ?thesis by blast
qed

lemma updateTargetFunctionSignature_erc20:
  assumes "updateTargetFunctionSignature e s t sc = Inr (s', t')"
  shows "IsErc20Call t' =
           (if Abi sc \<noteq> [] then EqualFold (Contract.Type sc) (AccountTypeERC20Token e)
            else IsErc20Call t)"
proof -
  obtain s1 t1 s2 t2 where m1: "matchStoredAbi e s t sc = (s1, t1)"
    and m2: "matchLegacyAbi e s1 t1 = Inr (s2, t2)"
    and m3: "useRawSignature s2 t2 = Inr (s', t')"
    using assms by (rule updateTargetFunctionSignature_steps)
  have t1: "t1 = snd (matchStoredAbi e s t sc)"
    using m1 by simp
  have "IsErc20Call t' = IsErc20Call t2"
    unfolding useRawSignature_trx(1) [OF m3] by simp
  also have "\<dots> = IsErc20Call t1"
    unfolding matchLegacyAbi_trx [OF m2] by (simp split: option.splits)
  also have "\<dots> = (if Abi sc \<noteq> [] then EqualFold (Contract.Type sc) (AccountTypeERC20Token e)
            else IsErc20Call t)"
    unfolding t1 matchStoredAbi_trx by simp
  finally show ?thesis .
qed

lemma updateTargetFunctionSignature_legacy:
  assumes "updateTargetFunctionSignature e s t sc = Inr (s', t')"
  shows "abiTried s' = abiTried s @ (if Abi sc \<noteq> [] then [Abi sc] else []) @
           (if (Abi sc = [] \<or> abiMatch e (Abi sc) (InputData t) = None)
               \<and> TargetFunctionCall t = None \<and> To t = Some (SfcContract e)
            then [SfcV1ContractABI e] else [])"
    and "(Abi sc = [] \<or> abiMatch e (Abi sc) (InputData t) = None)
           \<and> TargetFunctionCall t = None \<and> To t = Some (SfcContract e)
           \<and> abiMatch e (SfcV1ContractABI e) (InputData t) = Some n
         \<Longrightarrow> TargetFunctionCall t' = Some n"
proof -
  obtain s1 t1 s2 t2 where m1: "matchStoredAbi e s t sc = (s1, t1)"
    and m2: "matchLegacyAbi e s1 t1 = Inr (s2, t2)"
    and m3: "useRawSignature s2 t2 = Inr (s', t')"
    using assms by (rule updateTargetFunctionSignature_steps)
  have t1: "t1 = snd (matchStoredAbi e s t sc)" and s1: "s1 = fst (matchStoredAbi e s t sc)"
    using m1 by simp_all
  have f1: "To t1 = To t" "InputData t1 = InputData t"
    unfolding t1 matchStoredAbi_trx by (simp_all split: option.splits)
  have c1: "TargetFunctionCall t1 = None \<longleftrightarrow>
              (Abi sc = [] \<or> abiMatch e (Abi sc) (InputData t) = None)
                \<and> TargetFunctionCall t = None"
    unfolding t1 matchStoredAbi_trx by (auto split: option.splits)
  have "abiTried s' = abiTried s2"
    by (rule useRawSignature_trx(2) [OF m3])
  also have "\<dots> = abiTried s1 @
           (if TargetFunctionCall t1 = None \<and> To t1 = Some (SfcContract e)
            then [SfcV1ContractABI e] else [])"
    by (rule matchLegacyAbi_abiTried [OF m2])
  also have "abiTried s1 = abiTried s @ (if Abi sc \<noteq> [] then [Abi sc] else [])"
    unfolding s1 by (rule matchStoredAbi_abiTried)
  finally show "abiTried s' = abiTried s @ (if Abi sc \<noteq> [] then [Abi sc] else []) @
           (if (Abi sc = [] \<or> abiMatch e (Abi sc) (InputData t) = None)
               \<and> TargetFunctionCall t = None \<and> To t = Some (SfcContract e)
            then [SfcV1ContractABI e] else [])"
    using c1 f1 by auto
  assume L: "(Abi sc = [] \<or> abiMatch e (Abi sc) (InputData t) = None)
           \<and> TargetFunctionCall t = None \<and> To t = Some (SfcContract e)
           \<and> abiMatch e (SfcV1ContractABI e) (InputData t) = Some n"
  then have "TargetFunctionCall t1 = None" "To t1 = Some (SfcContract e)"
    "abiMatch e (SfcV1ContractABI e) (InputData t1) = Some n"
    using c1 f1 by auto
  then have "TargetFunctionCall t2 = Some n"
    unfolding matchLegacyAbi_trx [OF m2] by simp
  then show "TargetFunctionCall t' = Some n"
    unfolding useRawSignature_trx(1) [OF m3] by simp
qed

lemma eligible_fields:
  assumes "IsLikelyAContractCall (Some t)"
  obtains a d where "To t = Some a" and "InputData t = Some d" and "4 \<le> length d"
  using assms by (auto simp: IsLikelyAContractCall_def bytes_of_def)

lemma eligible_rendering:
  assumes "IsLikelyAContractCall (Some t)"
  shows "10 \<le> length (Bytes_String (InputData t))"
proof -
  obtain a d where "To t = Some a" "InputData t = Some d" "4 \<le> length d"
    using assms by (rule eligible_fields)
  then show ?thesis
    by (simp add: Bytes_String_def bytes_of_def length_Encode)
qed

lemma eligible_signature_ok:
  assumes "IsLikelyAContractCall (Some t)"
  shows "\<exists>s' t'. updateTargetFunctionSignature e s t sc = Inr (s', t')"
proof (rule updateTargetFunctionSignature_ok)
  show "To t \<noteq> None"
    using assms by (simp add: IsLikelyAContractCall_def)
  show "8 \<le> length (Bytes_String (InputData t))"
    using eligible_rendering [OF assms] by simp
qed

lemma updateTargetContractType_frame:
  assumes "updateTargetContractType e s t = Inr (s', t')"
  shows "To t' = To t" and "InputData t' = InputData t"
    and "TargetFunctionCall t' = TargetFunctionCall t" and "IsErc20Call t' = IsErc20Call t"
    and "Hash t' = Hash t"
    and "abiTried s' = abiTried s" and "updateCalls s' = updateCalls s"
  using assms
  by (auto simp: updateTargetContractType_def put_def split: prod.splits option.splits)

lemma persist_updateCalls: "updateCalls (persist e s t) = updateCalls s @ [t]"
  by (simp add: persist_def put_def Let_def split: option.splits)

lemma persist_abiTried: "abiTried (persist e s t) = abiTried s"
  by (simp add: persist_def put_def Let_def split: option.splits)

lemma persist_logged: "set (logged s) \<subseteq> set (logged (persist e s t))"
  by (auto simp: persist_def put_def Let_def split: option.splits)

lemma analyzeCall_known:
  assumes "IsLikelyAContractCall (Some t)" and "repo_Contract e (To t) = (Some sc, err)"
  shows "analyzeCall e s (Some t) =
     (let s1 = (case err of
                  None \<Rightarrow> s
                | Some m \<Rightarrow> put Error ''can not analyze call at %s; %s'' [ArgHash (Hash t), ArgErr m] s)
      in case updateTargetContractType e s1 t of
           Inl p \<Rightarrow> Inl p
         | Inr (s2, t2) \<Rightarrow>
             (case updateTargetFunctionSignature e s2 t2 sc of
                Inl p \<Rightarrow> Inl p
              | Inr (s3, t3) \<Rightarrow> Inr (persist e s3 t3, Some t3)))"
  using assms by (simp add: analyzeCall_def Let_def)

lemma analyzeCall_returns:
  assumes "IsLikelyAContractCall (Some t)" and "repo_Contract e (To t) = (Some sc, err)"
    and "analyzeCall e s (Some t) = Inr (s', r)"
  obtains s1 s2 t2 s3 t3 where
    "s1 = (case err of
             None \<Rightarrow> s
           | Some m \<Rightarrow> put Error ''can not analyze call at %s; %s'' [ArgHash (Hash t), ArgErr m] s)"
    and "updateTargetContractType e s1 t = Inr (s2, t2)"
    and "updateTargetFunctionSignature e s2 t2 sc = Inr (s3, t3)"
    and "s' = persist e s3 t3" and "r = Some t3"
  using assms(3) unfolding analyzeCall_known [OF assms(1,2)] Let_def
  by (auto split: sum.splits prod.splits)

section \<open>Runs on the stubs\<close>

lemma token_call_eligible:
  "IsLikelyAContractCall (Some (call (Some tokenAddress) (Some deadbeef)))"
  by (simp add: IsLikelyAContractCall_def call_def deadbeef_def bytes_of_def)

lemma plain_call_eligible:
  "IsLikelyAContractCall (Some (call (Some plainAddress) (Some deadbeef)))"
  by (simp add: IsLikelyAContractCall_def call_def deadbeef_def bytes_of_def)

lemma sfc_call_eligible:
  "IsLikelyAContractCall (Some (call (Some sfcAddress) (Some legacySelector)))"
  by (simp add: IsLikelyAContractCall_def call_def legacySelector_def bytes_of_def)

lemma token_deadbeef_run:
  "analyzeCall stubEnv idle (Some (call (Some tokenAddress) (Some deadbeef))) =
     Inr (\<lparr>logged = [(Error, ''method signature not found at %s; %s'',
                       [ArgHash [0x01], ArgErr ''no method with id'']),
                     (Debug, ''transaction %s call undefined, generic signature used'',
                       [ArgHash [0x01]])],
           abiTried = [tokenAbi],
           updateCalls = [\<lparr>Hash = [0x01], To = Some tokenAddress, InputData = Some deadbeef,
                            TargetContractType = Some ''ERC20'',
                            TargetFunctionCall = Some ''0xdeadbe'', IsErc20Call = True\<rparr>]\<rparr>,
          Some \<lparr>Hash = [0x01], To = Some tokenAddress, InputData = Some deadbeef,
                 TargetContractType = Some ''ERC20'',
                 TargetFunctionCall = Some ''0xdeadbe'', IsErc20Call = True\<rparr>)"
  by code_simp

lemma sfc_legacy_run:
  "analyzeCall stubEnv idle (Some (call (Some sfcAddress) (Some legacySelector))) =
     Inr (\<lparr>logged = [(Error, ''method signature not found at %s; %s'',
                       [ArgHash [0x01], ArgErr ''no method with id''])],
           abiTried = [sfcAbi, sfcV1Abi],
           updateCalls = [\<lparr>Hash = [0x01], To = Some sfcAddress, InputData = Some legacySelector,
                            TargetContractType = Some ''SFC'',
                            TargetFunctionCall = Some ''createDelegation'',
                            IsErc20Call = False\<rparr>]\<rparr>,
          Some \<lparr>Hash = [0x01], To = Some sfcAddress, InputData = Some legacySelector,
                 TargetContractType = Some ''SFC'',
                 TargetFunctionCall = Some ''createDelegation'', IsErc20Call = False\<rparr>)"
  by code_simp

section \<open>Properties of the call analyzer\<close>

subsection \<open>The ERC-20 flag\<close>

text \<open>
  Claim C1, as the code has it: for an eligible transaction whose recipient resolves to a
  known contract, after the analysis \<open>IsErc20Call\<close> is the outcome of the case-insensitive
  comparison of the contract's type with the ERC-20 type whenever the contract has a
  non-empty ABI, whether or not a selector was matched, and it keeps the value the
  transaction came with when the contract has no ABI.
\<close>

theorem isErc20Call_by_type:
  assumes "IsLikelyAContractCall (Some t)" and "repo_Contract e (To t) = (Some sc, err)"
    and "analyzeCall e s (Some t) = Inr (s', r)"
  shows "\<exists>t'. r = Some t'
     \<and> IsErc20Call t' =
         (if Abi sc \<noteq> [] then EqualFold (Contract.Type sc) (AccountTypeERC20Token e)
          else IsErc20Call t)"
proof -
  obtain s1 s2 t2 s3 t3 where u1: "updateTargetContractType e s1 t = Inr (s2, t2)"
    and u2: "updateTargetFunctionSignature e s2 t2 sc = Inr (s3, t3)"
    and r: "r = Some t3"
    using assms by (rule analyzeCall_returns)
  have "IsErc20Call t3 =
         (if Abi sc \<noteq> [] then EqualFold (Contract.Type sc) (AccountTypeERC20Token e)
          else IsErc20Call t2)"
    by (rule updateTargetFunctionSignature_erc20 [OF u2])
  with updateTargetContractType_frame(4) [OF u1] r show ?thesis
    by simp
qed

text \<open>
  On the stubs: a call to the token contract, whose record has an ABI and the type
  \<open>ERC20\<close>.
\<close>

theorem isErc20Call_by_type_witness:
  "\<exists>s' t'. analyzeCall stubEnv idle (Some (call (Some tokenAddress) (Some deadbeef)))
              = Inr (s', Some t')
      \<and> IsErc20Call t' = EqualFold ''ERC20'' ''ERC20''"
proof -
  let ?t = "call (Some tokenAddress) (Some deadbeef)"
  let ?sc = "\<lparr>Abi = tokenAbi, Contract.Type = ''ERC20''\<rparr>"
  have c: "repo_Contract stubEnv (To ?t) = (Some ?sc, None)"
    by (simp add: stubEnv_def stubContract_def call_def)
  have k: "Abi ?sc \<noteq> []" "Contract.Type ?sc = ''ERC20''" "AccountTypeERC20Token stubEnv = ''ERC20''"
    by (simp_all add: tokenAbi_def stubEnv_def)
  obtain s' r where run: "analyzeCall stubEnv idle (Some ?t) = Inr (s', r)"
    using token_deadbeef_run by blast
  from isErc20Call_by_type [OF token_call_eligible c run] k
  obtain t' where "r = Some t'" and "IsErc20Call t' = EqualFold ''ERC20'' ''ERC20''"
    by auto
  with run show ?thesis
    by blast
qed

text \<open>
  The flag does not wait for a selector match: a call to the token contract with a selector
  its ABI does not hold ends with the raw signature and with \<open>IsErc20Call\<close> true.
\<close>

theorem isErc20Call_without_match:
  "IsLikelyAContractCall (Some (call (Some tokenAddress) (Some deadbeef)))
   \<and> fst (repo_Contract stubEnv (Some tokenAddress))
       = Some \<lparr>Abi = tokenAbi, Contract.Type = ''ERC20''\<rparr>
   \<and> abiMatch stubEnv tokenAbi (Some deadbeef) = None
   \<and> map_option TargetFunctionCall
        (trxAfter (analyzeCall stubEnv idle (Some (call (Some tokenAddress) (Some deadbeef)))))
       = Some (Some ''0xdeadbe'')
   \<and> map_option IsErc20Call
        (trxAfter (analyzeCall stubEnv idle (Some (call (Some tokenAddress) (Some deadbeef)))))
       = Some True"
  by code_simp

subsection \<open>The raw signature\<close>

text \<open>
  Claim C2, on the code: a call to the SFC with input data \<open>0xdeadbeef\<close>, which neither
  the stored ABI nor the version 1 interface holds. The rendering of the input data starts
  with \<open>0x\<close>, so its first 8 characters are the prefix and three bytes of the selector:
  the recorded signature is \<open>0xdeadbe\<close>, not \<open>deadbeef\<close>.
\<close>

theorem raw_signature_of_deadbeef:
  "IsLikelyAContractCall (Some (call (Some sfcAddress) (Some deadbeef)))
   \<and> fst (repo_Contract stubEnv (Some sfcAddress)) = Some \<lparr>Abi = sfcAbi, Contract.Type = ''SFC''\<rparr>
   \<and> abiMatch stubEnv sfcAbi (Some deadbeef) = None
   \<and> abiMatch stubEnv (SfcV1ContractABI stubEnv) (Some deadbeef) = None
   \<and> map_option TargetFunctionCall
        (trxAfter (analyzeCall stubEnv idle (Some (call (Some sfcAddress) (Some deadbeef)))))
       = Some (Some ''0xdeadbe'')
   \<and> map_option IsErc20Call
        (trxAfter (analyzeCall stubEnv idle (Some (call (Some sfcAddress) (Some deadbeef)))))
       = Some False"
  by code_simp

text \<open>
  Claim C10: for a transaction that passes the eligibility check, the rendering of the input
  data has at least 10 characters (\<open>0x\<close> and two digits for each of at least 4 bytes), so
  the slice of its first 8 characters is within bounds, and the signature update does not
  panic.
\<close>

theorem raw_signature_in_bounds:
  assumes "IsLikelyAContractCall (Some t)"
  shows "10 \<le> length (Bytes_String (InputData t))
     \<and> slice_to 8 (Bytes_String (InputData t)) = Inr (take 8 (Bytes_String (InputData t)))
     \<and> (\<exists>s' t'. updateTargetFunctionSignature e s t sc = Inr (s', t'))"
proof -
  have len: "10 \<le> length (Bytes_String (InputData t))"
    using assms by (rule eligible_rendering)
  then have "slice_to 8 (Bytes_String (InputData t)) = Inr (take 8 (Bytes_String (InputData t)))"
    by (simp add: slice_to_def)
  moreover have "\<exists>s' t'. updateTargetFunctionSignature e s t sc = Inr (s', t')"
    using assms by (rule eligible_signature_ok)
  ultimately show ?thesis
    using len by blast
qed

text \<open>On the stubs: the contract without ABI and the input data \<open>0xdeadbeef\<close>.\<close>

theorem raw_signature_in_bounds_witness:
  "IsLikelyAContractCall (Some (call (Some plainAddress) (Some deadbeef)))
   \<and> slice_to 8 (Bytes_String (Some deadbeef)) = Inr ''0xdeadbe''
   \<and> (\<exists>s' t'. updateTargetFunctionSignature stubEnv idle (call (Some plainAddress) (Some deadbeef))
                  \<lparr>Abi = [], Contract.Type = ''contract''\<rparr> = Inr (s', t'))"
proof -
  note h = plain_call_eligible
  have "take 8 (Bytes_String (Some deadbeef)) = ''0xdeadbe''"
    by (simp add: Bytes_String_def bytes_of_def deadbeef_def Encode_def hex_byte_def hexdigit_def)
  with raw_signature_in_bounds [OF h, of stubEnv idle "\<lparr>Abi = [], Contract.Type = ''contract''\<rparr>"] h
  show ?thesis by (simp add: call_def)
qed

subsection \<open>The function call is always named\<close>

text \<open>
  Claim C5: for an eligible transaction whose recipient resolves to a known contract,
  the analysis returns unless the account lookup yields neither an account nor an error
  (then \<open>acc.Type\<close> dereferences nil), and when it returns, \<open>TargetFunctionCall\<close> is
  set in the transaction it hands to the repository.
\<close>

theorem targetFunctionCall_set:
  assumes "IsLikelyAContractCall (Some t)" and "repo_Contract e (To t) = (Some sc, err)"
  shows "(repo_Account e (To t) = (None, None) \<longrightarrow> analyzeCall e s (Some t) = Inl NilDereference)
     \<and> (repo_Account e (To t) \<noteq> (None, None) \<longrightarrow>
          (\<exists>s' t'. analyzeCall e s (Some t) = Inr (s', Some t')
             \<and> TargetFunctionCall t' \<noteq> None
             \<and> updateCalls s' = updateCalls s @ [t']))"
proof (intro conjI impI)
  assume "repo_Account e (To t) = (None, None)"
  then show "analyzeCall e s (Some t) = Inl NilDereference"
    by (simp add: analyzeCall_known [OF assms] updateTargetContractType_def Let_def)
next
  assume acc: "repo_Account e (To t) \<noteq> (None, None)"
  define s1 where "s1 = (case err of
                  None \<Rightarrow> s
                | Some m \<Rightarrow> put Error ''can not analyze call at %s; %s'' [ArgHash (Hash t), ArgErr m] s)"
  obtain a d where f: "To t = Some a" "InputData t = Some d" "4 \<le> length d"
    using assms(1) by (rule eligible_fields)
  have "\<exists>s2 t2. updateTargetContractType e s1 t = Inr (s2, t2)"
    using acc f(1) by (cases "repo_Account e (To t)")
      (auto simp: updateTargetContractType_def split: option.splits)
  then obtain s2 t2 where u1: "updateTargetContractType e s1 t = Inr (s2, t2)"
    by blast
  have el2: "IsLikelyAContractCall (Some t2)"
    using assms(1) updateTargetContractType_frame(1,2) [OF u1]
    by (simp add: IsLikelyAContractCall_def)
  obtain s3 t3 where u2: "updateTargetFunctionSignature e s2 t2 sc = Inr (s3, t3)"
    using eligible_signature_ok [OF el2, of e s2 sc] by blast
  obtain sa ta sb tb where "useRawSignature sb tb = Inr (s3, t3)"
    using u2 by (rule updateTargetFunctionSignature_steps)
  then have set3: "TargetFunctionCall t3 \<noteq> None"
    by (rule useRawSignature_set)
  have "analyzeCall e s (Some t) = Inr (persist e s3 t3, Some t3)"
    using u1 u2 by (simp add: analyzeCall_known [OF assms] s1_def Let_def)
  moreover have "updateCalls (persist e s3 t3) = updateCalls s @ [t3]"
    using updateTargetContractType_frame(7) [OF u1] updateTargetFunctionSignature_frame(5) [OF u2]
    by (simp add: persist_updateCalls s1_def put_def split: option.splits)
  ultimately show "\<exists>s' t'. analyzeCall e s (Some t) = Inr (s', Some t')
             \<and> TargetFunctionCall t' \<noteq> None \<and> updateCalls s' = updateCalls s @ [t']"
    using set3 by blast
qed

theorem targetFunctionCall_set_witness:
  "analyzeCall stubEnvNoAccount idle (Some (call (Some tokenAddress) (Some deadbeef)))
     = Inl NilDereference
   \<and> (\<exists>s' t'. analyzeCall stubEnv idle (Some (call (Some tokenAddress) (Some deadbeef)))
                  = Inr (s', Some t')
         \<and> TargetFunctionCall t' \<noteq> None \<and> updateCalls s' = [t'])"
proof -
  let ?t = "call (Some tokenAddress) (Some deadbeef)"
  have c: "repo_Contract stubEnv (To ?t) = (Some \<lparr>Abi = tokenAbi, Contract.Type = ''ERC20''\<rparr>, None)"
    by (simp add: stubEnv_def stubContract_def call_def)
  have c': "repo_Contract stubEnvNoAccount (To ?t)
              = (Some \<lparr>Abi = tokenAbi, Contract.Type = ''ERC20''\<rparr>, None)"
    by (simp add: stubEnvNoAccount_def stubEnv_def stubContract_def call_def)
  have a: "repo_Account stubEnv (To ?t) \<noteq> (None, None)"
    by (simp add: stubEnv_def stubAccount_def call_def)
  have a': "repo_Account stubEnvNoAccount (To ?t) = (None, None)"
    by (simp add: stubEnvNoAccount_def)
  from targetFunctionCall_set [OF token_call_eligible c, of idle] a
    targetFunctionCall_set [OF token_call_eligible c', of idle] a'
  show ?thesis by (simp add: idle_def)
qed

subsection \<open>The eligibility check\<close>

text \<open>
  Claim C6: \<open>IsLikelyAContractCall\<close> holds exactly for a non-nil transaction with a
  recipient and non-nil input data of at least 4 bytes; for any other transaction
  \<open>analyzeCall\<close> returns the transaction as it was, hands nothing to the repository and
  tries no ABI: it only logs an error.
\<close>

theorem IsLikelyAContractCall_guard:
  "(IsLikelyAContractCall trx \<longleftrightarrow>
      (\<exists>t a d. trx = Some t \<and> To t = Some a \<and> InputData t = Some d \<and> 4 \<le> length d))
   \<and> (\<not> IsLikelyAContractCall trx \<longrightarrow>
        (\<exists>s'. analyzeCall e s trx = Inr (s', trx)
           \<and> updateCalls s' = updateCalls s \<and> abiTried s' = abiTried s
           \<and> logged s' = logged s @ [(Error, ''analyzer received a non-call transaction'', [])]))"
proof (intro conjI impI)
  show "IsLikelyAContractCall trx \<longleftrightarrow>
      (\<exists>t a d. trx = Some t \<and> To t = Some a \<and> InputData t = Some d \<and> 4 \<le> length d)"
    by (cases trx) (auto simp: IsLikelyAContractCall_def bytes_of_def)
next
  assume "\<not> IsLikelyAContractCall trx"
  then have "analyzeCall e s trx
               = Inr (put Error ''analyzer received a non-call transaction'' [] s, trx)"
    by (simp add: analyzeCall_def)
  then show "\<exists>s'. analyzeCall e s trx = Inr (s', trx)
           \<and> updateCalls s' = updateCalls s \<and> abiTried s' = abiTried s
           \<and> logged s' = logged s @ [(Error, ''analyzer received a non-call transaction'', [])]"
    by (simp add: put_def)
qed

theorem IsLikelyAContractCall_guard_witness:
  "\<not> IsLikelyAContractCall (Some (call None (Some deadbeef)))
   \<and> \<not> IsLikelyAContractCall (Some (call (Some tokenAddress) (Some [0xa9, 0x05, 0x9c])))
   \<and> IsLikelyAContractCall (Some (call (Some tokenAddress) (Some deadbeef)))
   \<and> (\<exists>s'. analyzeCall stubEnv idle (Some (call None (Some deadbeef)))
               = Inr (s', Some (call None (Some deadbeef)))
          \<and> updateCalls s' = [])
   \<and> (\<exists>s'. analyzeCall stubEnv idle (Some (call (Some tokenAddress) (Some [0xa9, 0x05, 0x9c])))
               = Inr (s', Some (call (Some tokenAddress) (Some [0xa9, 0x05, 0x9c])))
          \<and> updateCalls s' = [])"
proof -
  have h1: "\<not> IsLikelyAContractCall (Some (call None (Some deadbeef)))"
    by (simp add: IsLikelyAContractCall_def call_def)
  have h2: "\<not> IsLikelyAContractCall (Some (call (Some tokenAddress) (Some [0xa9, 0x05, 0x9c])))"
    by (simp add: IsLikelyAContractCall_def call_def bytes_of_def)
  from IsLikelyAContractCall_guard
      [of "Some (call None (Some deadbeef))" stubEnv idle, THEN conjunct2, THEN mp, OF h1]
  obtain s1 where r1: "analyzeCall stubEnv idle (Some (call None (Some deadbeef)))
                         = Inr (s1, Some (call None (Some deadbeef)))"
    and u1: "updateCalls s1 = updateCalls idle"
    by blast
  from IsLikelyAContractCall_guard
      [of "Some (call (Some tokenAddress) (Some [0xa9, 0x05, 0x9c]))" stubEnv idle,
        THEN conjunct2, THEN mp, OF h2]
  obtain s2 where r2: "analyzeCall stubEnv idle
                         (Some (call (Some tokenAddress) (Some [0xa9, 0x05, 0x9c])))
                         = Inr (s2, Some (call (Some tokenAddress) (Some [0xa9, 0x05, 0x9c])))"
    and u2: "updateCalls s2 = updateCalls idle"
    by blast
  have "updateCalls s1 = []" "updateCalls s2 = []"
    using u1 u2 by (simp_all add: idle_def)
  with h1 h2 token_call_eligible r1 r2 show ?thesis
    by blast
qed

subsection \<open>The target contract type\<close>

text \<open>
  Claim C7: for an eligible transaction whose recipient resolves to a known contract, an
  account lookup that yields the account makes the analysis return with
  \<open>TargetContractType\<close> set to that account's type; a lookup that yields an error makes it
  return with \<open>TargetContractType\<close> set to the generic contract type, and the log then holds
  an entry of critical severity naming the recipient, the transaction and the error. The
  field is set in both cases. (The model has values, not pointers: the field holds the
  type string.)
\<close>

theorem targetContractType_set:
  assumes "IsLikelyAContractCall (Some t)" and "repo_Contract e (To t) = (Some sc, err)"
  shows "(\<forall>acc. repo_Account e (To t) = (Some acc, None) \<longrightarrow>
            (\<exists>s' t'. analyzeCall e s (Some t) = Inr (s', Some t')
               \<and> TargetContractType t' = Some (Account.Type acc)))
     \<and> (\<forall>acc m. repo_Account e (To t) = (acc, Some m) \<longrightarrow>
            (\<exists>s' t' a. analyzeCall e s (Some t) = Inr (s', Some t')
               \<and> TargetContractType t' = Some (AccountTypeContract e)
               \<and> To t = Some a
               \<and> (Critical, ''contract %s account not found at %s; %s'',
                    [ArgAddr a, ArgHash (Hash t), ArgErr m]) \<in> set (logged s')))"
proof -
  define s1 where "s1 = (case err of
                  None \<Rightarrow> s
                | Some m \<Rightarrow> put Error ''can not analyze call at %s; %s'' [ArgHash (Hash t), ArgErr m] s)"
  obtain a d where f: "To t = Some a" "InputData t = Some d" "4 \<le> length d"
    using assms(1) by (rule eligible_fields)
  have rest: "\<exists>s' t'. analyzeCall e s (Some t) = Inr (s', Some t')
                \<and> TargetContractType t' = TargetContractType t2
                \<and> set (logged s2) \<subseteq> set (logged s')"
    if u1: "updateTargetContractType e s1 t = Inr (s2, t2)" for s2 t2
  proof -
    have el2: "IsLikelyAContractCall (Some t2)"
      using assms(1) updateTargetContractType_frame(1,2) [OF u1]
      by (simp add: IsLikelyAContractCall_def)
    obtain s3 t3 where u2: "updateTargetFunctionSignature e s2 t2 sc = Inr (s3, t3)"
      using eligible_signature_ok [OF el2, of e s2 sc] by blast
    have "analyzeCall e s (Some t) = Inr (persist e s3 t3, Some t3)"
      using u1 u2 by (simp add: analyzeCall_known [OF assms] s1_def Let_def)
    moreover have "TargetContractType t3 = TargetContractType t2"
      by (rule updateTargetFunctionSignature_frame(3) [OF u2])
    moreover have "set (logged s2) \<subseteq> set (logged (persist e s3 t3))"
      using updateTargetFunctionSignature_logged [OF u2] persist_logged [of s3 e t3] by blast
    ultimately show ?thesis by blast
  qed
  show ?thesis
  proof (intro conjI allI impI)
    fix acc
    assume "repo_Account e (To t) = (Some acc, None)"
    then have "updateTargetContractType e s1 t
                 = Inr (s1, t\<lparr>TargetContractType := Some (Account.Type acc)\<rparr>)"
      by (simp add: updateTargetContractType_def)
    from rest [OF this]
    show "\<exists>s' t'. analyzeCall e s (Some t) = Inr (s', Some t')
               \<and> TargetContractType t' = Some (Account.Type acc)"
      by auto
  next
    fix acc m
    assume "repo_Account e (To t) = (acc, Some m)"
    then have "updateTargetContractType e s1 t
                 = Inr (put Critical ''contract %s account not found at %s; %s''
                          [ArgAddr a, ArgHash (Hash t), ArgErr m] s1,
                        t\<lparr>TargetContractType := Some (AccountTypeContract e)\<rparr>)"
      using f(1) by (simp add: updateTargetContractType_def split: option.splits)
    from rest [OF this]
    show "\<exists>s' t' a. analyzeCall e s (Some t) = Inr (s', Some t')
               \<and> TargetContractType t' = Some (AccountTypeContract e)
               \<and> To t = Some a
               \<and> (Critical, ''contract %s account not found at %s; %s'',
                    [ArgAddr a, ArgHash (Hash t), ArgErr m]) \<in> set (logged s')"
      using f(1) by (auto simp: put_def)
  qed
qed

text \<open>
  Both branches on the stubs: the token's account is found, the account of the contract
  without ABI is not.
\<close>

theorem targetContractType_set_witness:
  "(\<exists>s' t'. analyzeCall stubEnv idle (Some (call (Some tokenAddress) (Some deadbeef)))
                = Inr (s', Some t')
        \<and> TargetContractType t' = Some ''ERC20'')
   \<and> (\<exists>s' t'. analyzeCall stubEnv idle (Some (call (Some plainAddress) (Some deadbeef)))
                  = Inr (s', Some t')
          \<and> TargetContractType t' = Some ''contract''
          \<and> (Critical, ''contract %s account not found at %s; %s'',
               [ArgAddr plainAddress, ArgHash [0x01], ArgErr ''account not found''])
               \<in> set (logged s'))"
proof -
  let ?t = "call (Some tokenAddress) (Some deadbeef)"
  let ?p = "call (Some plainAddress) (Some deadbeef)"
  have ct: "repo_Contract stubEnv (To ?t) = (Some \<lparr>Abi = tokenAbi, Contract.Type = ''ERC20''\<rparr>, None)"
    by (simp add: stubEnv_def stubContract_def call_def)
  have at: "repo_Account stubEnv (To ?t) = (Some \<lparr>Account.Type = ''ERC20''\<rparr>, None)"
    by (simp add: stubEnv_def stubAccount_def call_def)
  have cp: "repo_Contract stubEnv (To ?p) = (Some \<lparr>Abi = [], Contract.Type = ''contract''\<rparr>, None)"
    by (simp add: stubEnv_def stubContract_def call_def plainAddress_def tokenAddress_def
        sfcAddress_def)
  have ap: "repo_Account stubEnv (To ?p) = (None, Some ''account not found'')"
    by (simp add: stubEnv_def stubAccount_def call_def plainAddress_def tokenAddress_def
        sfcAddress_def)
  have k: "AccountTypeContract stubEnv = ''contract''" "To ?p = Some plainAddress"
    "Hash ?p = [0x01]"
    by (simp_all add: stubEnv_def call_def)
  from targetContractType_set [OF token_call_eligible ct, of idle, THEN conjunct1, rule_format, OF at]
  have one: "\<exists>s' t'. analyzeCall stubEnv idle (Some ?t) = Inr (s', Some t')
        \<and> TargetContractType t' = Some ''ERC20''"
    by simp
  from targetContractType_set [OF plain_call_eligible cp, of idle, THEN conjunct2, rule_format, OF ap]
  have two: "\<exists>s' t'. analyzeCall stubEnv idle (Some ?p) = Inr (s', Some t')
          \<and> TargetContractType t' = Some ''contract''
          \<and> (Critical, ''contract %s account not found at %s; %s'',
               [ArgAddr plainAddress, ArgHash [0x01], ArgErr ''account not found''])
               \<in> set (logged s')"
    unfolding k by auto
  from one two show ?thesis by blast
qed

subsection \<open>The legacy interface of the SFC\<close>

text \<open>
  Claim C8, as the code has it: for an eligible transaction whose recipient resolves to a
  known contract, the version 1 interface is tried exactly when \<open>TargetFunctionCall\<close> is
  still nil after the stored-ABI step (the transaction came with it nil, and the contract
  has no ABI or its ABI produced no match) and the recipient is the configured SFC address.
  A match of the version 1 interface then sets \<open>TargetFunctionCall\<close> to the matched name and
  does not touch \<open>IsErc20Call\<close>, which is what the stored-ABI step left: the type comparison
  if the contract has an ABI, the incoming value otherwise.
\<close>

theorem legacy_interface_tried:
  assumes "IsLikelyAContractCall (Some t)" and "repo_Contract e (To t) = (Some sc, err)"
    and "analyzeCall e s (Some t) = Inr (s', r)"
  shows "\<exists>t'. r = Some t'
     \<and> abiTried s' = abiTried s @ (if Abi sc \<noteq> [] then [Abi sc] else []) @
         (if (Abi sc = [] \<or> abiMatch e (Abi sc) (InputData t) = None)
             \<and> TargetFunctionCall t = None \<and> To t = Some (SfcContract e)
          then [SfcV1ContractABI e] else [])
     \<and> (\<forall>n. (Abi sc = [] \<or> abiMatch e (Abi sc) (InputData t) = None)
             \<and> TargetFunctionCall t = None \<and> To t = Some (SfcContract e)
             \<and> abiMatch e (SfcV1ContractABI e) (InputData t) = Some n
           \<longrightarrow> TargetFunctionCall t' = Some n
               \<and> IsErc20Call t' =
                   (if Abi sc \<noteq> [] then EqualFold (Contract.Type sc) (AccountTypeERC20Token e)
                    else IsErc20Call t))"
proof -
  obtain s1 s2 t2 s3 t3 where u1: "updateTargetContractType e s1 t = Inr (s2, t2)"
    and u2: "updateTargetFunctionSignature e s2 t2 sc = Inr (s3, t3)"
    and s': "s' = persist e s3 t3" and r: "r = Some t3"
    and s1: "s1 = (case err of
             None \<Rightarrow> s
           | Some m \<Rightarrow> put Error ''can not analyze call at %s; %s'' [ArgHash (Hash t), ArgErr m] s)"
    using assms by (rule analyzeCall_returns)
  note fr = updateTargetContractType_frame [OF u1]
  have a1: "abiTried s2 = abiTried s"
    using fr(6) by (simp add: s1 put_def split: option.splits)
  have "abiTried s' = abiTried s3"
    by (simp add: s' persist_abiTried)
  with updateTargetFunctionSignature_legacy(1) [OF u2] fr(1,2,3) a1
  have tried: "abiTried s' = abiTried s @ (if Abi sc \<noteq> [] then [Abi sc] else []) @
         (if (Abi sc = [] \<or> abiMatch e (Abi sc) (InputData t) = None)
             \<and> TargetFunctionCall t = None \<and> To t = Some (SfcContract e)
          then [SfcV1ContractABI e] else [])"
    by simp
  have flag: "IsErc20Call t3 =
                (if Abi sc \<noteq> [] then EqualFold (Contract.Type sc) (AccountTypeERC20Token e)
                 else IsErc20Call t)"
    using updateTargetFunctionSignature_erc20 [OF u2] fr(4) by simp
  have name: "TargetFunctionCall t3 = Some n"
    if "(Abi sc = [] \<or> abiMatch e (Abi sc) (InputData t) = None)
             \<and> TargetFunctionCall t = None \<and> To t = Some (SfcContract e)
             \<and> abiMatch e (SfcV1ContractABI e) (InputData t) = Some n" for n
    using updateTargetFunctionSignature_legacy(2) [OF u2, of n] that fr(1,2,3) by simp
  show ?thesis
    using r tried flag name by blast
qed

text \<open>
  On the stubs: a call to the SFC (typed \<open>SFC\<close>) with a selector of the version 1
  interface only.
\<close>

theorem legacy_interface_tried_witness:
  "\<exists>s' t'. analyzeCall stubEnv idle (Some (call (Some sfcAddress) (Some legacySelector)))
              = Inr (s', Some t')
      \<and> abiTried s' = [sfcAbi, sfcV1Abi]
      \<and> TargetFunctionCall t' = Some ''createDelegation''
      \<and> IsErc20Call t' = False"
proof -
  let ?t = "call (Some sfcAddress) (Some legacySelector)"
  let ?sc = "\<lparr>Abi = sfcAbi, Contract.Type = ''SFC''\<rparr>"
  have c: "repo_Contract stubEnv (To ?t) = (Some ?sc, None)"
    by code_simp
  have k: "abiMatch stubEnv (Abi ?sc) (InputData ?t) = None"
    "TargetFunctionCall ?t = None" "To ?t = Some (SfcContract stubEnv)"
    "abiMatch stubEnv (SfcV1ContractABI stubEnv) (InputData ?t) = Some ''createDelegation''"
    "Abi ?sc \<noteq> []" "SfcV1ContractABI stubEnv = sfcV1Abi" "abiTried idle = []" "Abi ?sc = sfcAbi"
    "EqualFold (Contract.Type ?sc) (AccountTypeERC20Token stubEnv) = False"
    by code_simp+
  obtain s' r where run: "analyzeCall stubEnv idle (Some ?t) = Inr (s', r)"
    using sfc_legacy_run by blast
  from legacy_interface_tried [OF sfc_call_eligible c run] k
  obtain t' where "r = Some t'" and "abiTried s' = [sfcAbi, sfcV1Abi]"
    and "TargetFunctionCall t' = Some ''createDelegation''" and "IsErc20Call t' = False"
    by auto
  with run show ?thesis
    by blast
qed

text \<open>
  Two runs on which the legacy step departs from the wording of claim C8. First: the SFC's
  contract record is typed as a token and its stored ABI does not hold the selector; the
  version 1 interface matches, and \<open>IsErc20Call\<close> is true afterwards. Second: the
  transaction arrives with \<open>TargetFunctionCall\<close> already set; the stored ABI produces no
  match, the recipient is the SFC, and the version 1 interface is not tried.
\<close>

theorem legacy_match_on_token_typed_sfc:
  "IsLikelyAContractCall (Some (call (Some sfcAddress) (Some legacySelector)))
   \<and> fst (repo_Contract stubEnvTokenSfc (Some sfcAddress))
       = Some \<lparr>Abi = sfcAbi, Contract.Type = ''erc20''\<rparr>
   \<and> abiMatch stubEnvTokenSfc sfcAbi (Some legacySelector) = None
   \<and> abiMatch stubEnvTokenSfc (SfcV1ContractABI stubEnvTokenSfc) (Some legacySelector)
       = Some ''createDelegation''
   \<and> map_option abiTried
        (stateAfter (analyzeCall stubEnvTokenSfc idle
           (Some (call (Some sfcAddress) (Some legacySelector)))))
       = Some [sfcAbi, sfcV1Abi]
   \<and> map_option TargetFunctionCall
        (trxAfter (analyzeCall stubEnvTokenSfc idle
           (Some (call (Some sfcAddress) (Some legacySelector)))))
       = Some (Some ''createDelegation'')
   \<and> map_option IsErc20Call
        (trxAfter (analyzeCall stubEnvTokenSfc idle
           (Some (call (Some sfcAddress) (Some legacySelector)))))
       = Some True
   \<and> IsLikelyAContractCall (Some (labelled (call (Some sfcAddress) (Some legacySelector))))
   \<and> IsSfcContract stubEnv (Some sfcAddress) = Inr True
   \<and> abiMatch stubEnv sfcAbi (Some legacySelector) = None
   \<and> map_option abiTried
        (stateAfter (analyzeCall stubEnv idle
           (Some (labelled (call (Some sfcAddress) (Some legacySelector))))))
       = Some [sfcAbi]"
  by code_simp

section \<open>Properties of the proxy\<close>

lemma PullStakerInfo_cases:
  "PullStakerInfo e s sid =
     (case rpc_StakerInfo e sid of
        (info, Some m) \<Rightarrow> (s\<lparr>rpcCalls := rpcCalls s @ [sid]\<rparr>, None, Some m)
      | (None, None) \<Rightarrow>
          (fst (StoreStakerInfo e (s\<lparr>rpcCalls := rpcCalls s @ [sid]\<rparr>) sid \<lparr>Name = None\<rparr>),
           Some \<lparr>Name = None\<rparr>, None)
      | (Some info, None) \<Rightarrow> (s\<lparr>rpcCalls := rpcCalls s @ [sid]\<rparr>, Some info, None))"
  by (simp add: PullStakerInfo_def Let_def split: prod.splits option.splits)

lemma PullStakerInfo_result:
  "PullStakerInfo e s sid = (s', info, err) \<Longrightarrow> (err = None) = (info \<noteq> None)"
  by (auto simp: PullStakerInfo_cases split: prod.splits option.splits)

subsection \<open>What a pull leaves in the cache\<close>

text \<open>
  Claim C3, as the code has it: when the source returns no record (and no error) for a
  staker id, \<open>PullStakerInfo\<close> pushes a fresh default record into the cache and, if the cache
  accepts it, a first \<open>RetrieveStakerInfo\<close> that missed the cache leaves that record cached; a
  second \<open>RetrieveStakerInfo\<close> for the same id then returns it from the cache and leaves the
  state as it is: the source is not asked again.
\<close>

theorem unknown_staker_is_cached:
  assumes "cache s sid = None" and "rpc_StakerInfo e sid = (None, None)"
    and "cache_PushError e sid \<lparr>Name = None\<rparr> = None"
  shows "PullStakerInfo e s sid
           = (s\<lparr>rpcCalls := rpcCalls s @ [sid], cache := (cache s)(sid \<mapsto> \<lparr>Name = None\<rparr>)\<rparr>,
              Some \<lparr>Name = None\<rparr>, None)
     \<and> (\<exists>s1. RetrieveStakerInfo e s sid = Inr (s1, None)
           \<and> rpcCalls s1 = rpcCalls s @ [sid]
           \<and> cache s1 sid = Some \<lparr>Name = None\<rparr>
           \<and> RetrieveStakerInfo e s1 sid = Inr (s1, Some \<lparr>Name = None\<rparr>))"
proof -
  let ?s1 = "s\<lparr>rpcCalls := rpcCalls s @ [sid], cache := (cache s)(sid \<mapsto> \<lparr>Name = None\<rparr>)\<rparr>"
  have p: "PullStakerInfo e s sid = (?s1, Some \<lparr>Name = None\<rparr>, None)"
    using assms(2,3)
    by (simp add: PullStakerInfo_cases StoreStakerInfo_def cache_PushStakerInfo_def)
  have r1: "RetrieveStakerInfo e s sid = Inr (?s1, None)"
    using assms(1) p by (simp add: RetrieveStakerInfo_def cache_PullStakerInfo_def)
  have r2: "RetrieveStakerInfo e ?s1 sid = Inr (?s1, Some \<lparr>Name = None\<rparr>)"
    by (simp add: RetrieveStakerInfo_def cache_PullStakerInfo_def Let_def)
  show ?thesis
    using p r1 r2 by auto
qed

text \<open>
  On the stubs: staker 2 is unknown to the source.
\<close>

theorem unknown_staker_is_cached_witness:
  "cache cold 2 = None \<and> rpc_StakerInfo stubProxy 2 = (None, None)
   \<and> cache_PushError stubProxy 2 \<lparr>Name = None\<rparr> = None
   \<and> (\<exists>s1. RetrieveStakerInfo stubProxy cold 2 = Inr (s1, None)
         \<and> rpcCalls s1 = [2]
         \<and> cache s1 2 = Some \<lparr>Name = None\<rparr>
         \<and> RetrieveStakerInfo stubProxy s1 2 = Inr (s1, Some \<lparr>Name = None\<rparr>))"
proof -
  have h: "cache cold 2 = None" "rpc_StakerInfo stubProxy 2 = (None, None)"
    "cache_PushError stubProxy 2 \<lparr>Name = None\<rparr> = None"
    by (simp_all add: cold_def stubProxy_def stubSource_def)
  from unknown_staker_is_cached [OF h] h
  show ?thesis by (simp add: cold_def)
qed

text \<open>
  A pull does not push a record the source returns: for staker 1 the cache is as empty
  after the first \<open>RetrieveStakerInfo\<close> as before, and the second one asks the source again.
\<close>

theorem named_staker_is_not_cached:
  "cache cold 1 = None
   \<and> PullStakerInfo stubProxy cold 1
       = (cold\<lparr>rpcCalls := [1]\<rparr>, Some \<lparr>Name = Some ''validator one''\<rparr>, None)
   \<and> cache (cold\<lparr>rpcCalls := [1]\<rparr>) 1 = None
   \<and> RetrieveStakerInfo stubProxy cold 1 = Inr (cold\<lparr>rpcCalls := [1]\<rparr>, None)
   \<and> RetrieveStakerInfo stubProxy (cold\<lparr>rpcCalls := [1]\<rparr>) 1
       = Inr (cold\<lparr>rpcCalls := [1, 1]\<rparr>, None)"
  by (simp add: cold_def stubProxy_def stubSource_def PullStakerInfo_def RetrieveStakerInfo_def
      cache_PullStakerInfo_def Let_def)

subsection \<open>A cache miss\<close>

text \<open>
  Claim C4: for a staker id that is absent from the cache, \<open>RetrieveStakerInfo\<close> asks the
  source once and returns nil, whatever the source answers: an error, no record, a record
  without name or a record with a name. The pulled record lives in the inner \<open>info\<close> only.
\<close>

theorem RetrieveStakerInfo_miss_is_nil:
  assumes "cache s sid = None"
  shows "\<exists>s'. RetrieveStakerInfo e s sid = Inr (s', None) \<and> rpcCalls s' = rpcCalls s @ [sid]"
proof -
  obtain s1 info err where p: "PullStakerInfo e s sid = (s1, info, err)"
    by (cases "PullStakerInfo e s sid") auto
  have calls: "rpcCalls s1 = rpcCalls s @ [sid]"
    using p
    by (auto simp: PullStakerInfo_cases StoreStakerInfo_def cache_PushStakerInfo_def
        split: prod.splits option.splits)
  have "RetrieveStakerInfo e s sid = Inr (s1, None)"
    using assms p PullStakerInfo_result [OF p]
    by (auto simp: RetrieveStakerInfo_def cache_PullStakerInfo_def Let_def split: option.splits)
  with calls show ?thesis by blast
qed

text \<open>
  On the stubs: staker 1 is not cached, the source knows its name, the result is nil.
\<close>

theorem RetrieveStakerInfo_miss_is_nil_witness:
  "cache cold 1 = None
   \<and> rpc_StakerInfo stubProxy 1 = (Some \<lparr>Name = Some ''validator one''\<rparr>, None)
   \<and> (\<exists>s'. RetrieveStakerInfo stubProxy cold 1 = Inr (s', None) \<and> rpcCalls s' = [1])"
proof -
  have h: "cache cold 1 = None"
    by (simp add: cold_def)
  have r: "rpc_StakerInfo stubProxy 1 = (Some \<lparr>Name = Some ''validator one''\<rparr>, None)"
    by (simp add: stubProxy_def stubSource_def)
  from RetrieveStakerInfo_miss_is_nil [OF h, of stubProxy] h r
  show ?thesis by (simp add: cold_def)
qed

subsection \<open>Withdraw requests\<close>

text \<open>
  Claim C9: for a delegator address, \<open>WithdrawRequests\<close> issues exactly one store query and
  returns its result. Without staker id the filter document holds the address alone; with a
  staker id it holds the address and the id's rendering. Cursor and count reach the store
  as they were given.
\<close>

theorem WithdrawRequests_query:
  "(\<exists>s'. WithdrawRequests e s (Some a) None cursor count
            = Inr (s', db_Withdrawals e cursor count [(''addr'', Address_String e a)])
       \<and> dbCalls s' = dbCalls s @ [(cursor, count, [(''addr'', Address_String e a)])])
   \<and> (\<exists>s'. WithdrawRequests e s (Some a) (Some sid) cursor count
              = Inr (s', db_Withdrawals e cursor count
                           [(''addr'', Address_String e a), (''to'', Big_String sid)])
         \<and> dbCalls s' = dbCalls s @
             [(cursor, count, [(''addr'', Address_String e a), (''to'', Big_String sid)])])"
  by (simp add: WithdrawRequests_def db_query_def)

text \<open>
  On the stubs, for the SFC address as delegator and staker 26.
\<close>

theorem WithdrawRequests_query_witness:
  "(\<exists>s'. WithdrawRequests stubProxy cold (Some sfcAddress) None (Some ''c7'') 25
            = Inr (s', [(''addr'', ''0xfc00face00000000000000000000000000000000'')])
       \<and> dbCalls s' = [(Some ''c7'', 25,
             [(''addr'', ''0xfc00face00000000000000000000000000000000'')])])
   \<and> (\<exists>s'. WithdrawRequests stubProxy cold (Some sfcAddress) (Some 26) (Some ''c7'') 25
              = Inr (s', [(''addr'', ''0xfc00face00000000000000000000000000000000''),
                          (''to'', ''0x1a'')])
         \<and> dbCalls s' = [(Some ''c7'', 25,
             [(''addr'', ''0xfc00face00000000000000000000000000000000''), (''to'', ''0x1a'')])])"
proof -
  have a: "Address_String stubProxy sfcAddress = ''0xfc00face00000000000000000000000000000000''"
    by code_simp
  have b: "Big_String 26 = ''0x1a''"
    by code_simp
  have c: "dbCalls cold = []"
    by (simp add: cold_def)
  have d: "db_Withdrawals stubProxy cu n f = f" for cu n f
    by (simp add: stubProxy_def)
  from WithdrawRequests_query [of stubProxy cold sfcAddress "Some ''c7''" 25 26]
  show ?thesis
    unfolding a b c d by simp
qed

end
